theory Spec2Isabelle
  imports Complex_Main "HOL-Library.Sublist"
begin

section \<open>JavaScript values\<close>

text \<open>
  A JavaScript number is a double. The model keeps the three special values apart and
  represents every finite double by the real number it denotes; arithmetic on finite
  values is exact, and negative zero is identified with zero.
\<close>

datatype jsnum = NaN | PInf | NInf | Fin real

text \<open>The relational operators: every comparison with \<open>NaN\<close> is false.\<close>

fun num_lt :: "jsnum \<Rightarrow> jsnum \<Rightarrow> bool" where
  "num_lt NaN _ = False"
| "num_lt _ NaN = False"
| "num_lt PInf _ = False"
| "num_lt _ PInf = True"
| "num_lt _ NInf = False"
| "num_lt NInf _ = True"
| "num_lt (Fin a) (Fin b) = (a < b)"

fun num_le :: "jsnum \<Rightarrow> jsnum \<Rightarrow> bool" where
  "num_le NaN _ = False"
| "num_le _ NaN = False"
| "num_le _ PInf = True"
| "num_le PInf _ = False"
| "num_le NInf _ = True"
| "num_le _ NInf = False"
| "num_le (Fin a) (Fin b) = (a \<le> b)"

definition num_gt :: "jsnum \<Rightarrow> jsnum \<Rightarrow> bool" where
  "num_gt a b = num_lt b a"

definition num_ge :: "jsnum \<Rightarrow> jsnum \<Rightarrow> bool" where
  "num_ge a b = num_le b a"

text \<open>Multiplication: an infinity times zero, and anything times \<open>NaN\<close>, is \<open>NaN\<close>.\<close>

definition inf_of_sign :: "bool \<Rightarrow> jsnum" where
  "inf_of_sign positive = (if positive then PInf else NInf)"

fun num_mul :: "jsnum \<Rightarrow> jsnum \<Rightarrow> jsnum" where
  "num_mul NaN _ = NaN"
| "num_mul _ NaN = NaN"
| "num_mul (Fin a) (Fin b) = Fin (a * b)"
| "num_mul PInf (Fin b) = (if b = 0 then NaN else inf_of_sign (0 < b))"
| "num_mul NInf (Fin b) = (if b = 0 then NaN else inf_of_sign (b < 0))"
| "num_mul (Fin a) PInf = (if a = 0 then NaN else inf_of_sign (0 < a))"
| "num_mul (Fin a) NInf = (if a = 0 then NaN else inf_of_sign (a < 0))"
| "num_mul PInf PInf = PInf"
| "num_mul NInf NInf = PInf"
| "num_mul PInf NInf = NInf"
| "num_mul NInf PInf = NInf"

text \<open>\<open>Math.round\<close>: the nearest integer, a tie going up; the special values are kept.\<close>

fun math_round :: "jsnum \<Rightarrow> jsnum" where
  "math_round (Fin x) = Fin (of_int \<lfloor>x + 1 / 2\<rfloor>)"
| "math_round n = n"

text \<open>
  Values as the webview can hold them. An object is the list of its own properties; the
  texts of the source that are not ASCII are given by their UTF-8 bytes.
\<close>

datatype jsval =
    JUndefined
  | JNull
  | JBool bool
  | JNum jsnum
  | JStr string
  | JArr "jsval list"
  | JObj "(string \<times> jsval) list"

text \<open>Property read \<open>v.k\<close> on a value that is neither \<open>null\<close> nor \<open>undefined\<close>;
  none of the keys read by the program is defined on a prototype.\<close>

fun get_prop :: "jsval \<Rightarrow> string \<Rightarrow> jsval" where
  "get_prop (JObj kvs) k = (case map_of kvs k of None \<Rightarrow> JUndefined | Some v \<Rightarrow> v)"
| "get_prop _ k = JUndefined"

text \<open>Truthiness, as tested by \<open>!v\<close> and \<open>v && ...\<close>.\<close>

fun truthy :: "jsval \<Rightarrow> bool" where
  "truthy JUndefined = False"
| "truthy JNull = False"
| "truthy (JBool b) = b"
| "truthy (JNum n) = (n \<noteq> NaN \<and> n \<noteq> Fin 0)"
| "truthy (JStr s) = (s \<noteq> [])"
| "truthy (JArr _) = True"
| "truthy (JObj _) = True"

text \<open>The nullish coalescing operator \<open>a ?? b\<close>.\<close>

definition nullish :: "jsval \<Rightarrow> jsval \<Rightarrow> jsval" where
  "nullish a b = (if a = JUndefined \<or> a = JNull then b else a)"

subsection \<open>The conversion \<open>Number(v)\<close>\<close>

definition isWhiteSpace :: "char \<Rightarrow> bool" where
  "isWhiteSpace c = (c \<in> set [CHR 0x09, CHR 0x0A, CHR 0x0B, CHR 0x0C, CHR 0x0D, CHR '' ''])"

text \<open>\<open>String.prototype.trim\<close> (on the ASCII white space and line terminators).\<close>

definition trim :: "string \<Rightarrow> string" where
  "trim s = rev (dropWhile isWhiteSpace (rev (dropWhile isWhiteSpace s)))"

definition charCode :: "char \<Rightarrow> nat" where
  "charCode c = of_char c"

definition isDigit :: "char \<Rightarrow> bool" where
  "isDigit c = (48 \<le> charCode c \<and> charCode c \<le> 57)"

text \<open>The value of a digit in a radix up to 16; 16 for a character that is no digit.\<close>

definition digitVal :: "char \<Rightarrow> nat" where
  "digitVal c =
     (if 48 \<le> charCode c \<and> charCode c \<le> 57 then charCode c - 48
      else if 97 \<le> charCode c \<and> charCode c \<le> 102 then charCode c - 87
      else if 65 \<le> charCode c \<and> charCode c \<le> 70 then charCode c - 55
      else 16)"

definition digitsVal :: "nat \<Rightarrow> string \<Rightarrow> nat" where
  "digitsVal base ds = foldl (\<lambda>acc c. acc * base + digitVal c) 0 ds"

definition radixLiteral :: "nat \<Rightarrow> string \<Rightarrow> jsnum" where
  "radixLiteral base ds =
     (if ds \<noteq> [] \<and> (\<forall>c \<in> set ds. digitVal c < base) then Fin (of_nat (digitsVal base ds))
      else NaN)"

definition pow10 :: "int \<Rightarrow> real" where
  "pow10 e = (if 0 \<le> e then 10 ^ nat e else 1 / 10 ^ nat (- e))"

text \<open>The exponent part of a decimal literal: absent, or \<open>e\<close>, an optional sign and
  digits up to the end of the text.\<close>

definition exponentPart :: "string \<Rightarrow> int option" where
  "exponentPart r =
     (case r of
        [] \<Rightarrow> Some 0
      | c # r1 \<Rightarrow>
          if c = CHR ''e'' \<or> c = CHR ''E'' then
            (let neg = (r1 \<noteq> [] \<and> hd r1 = CHR ''-'');
                 r2 = (if r1 \<noteq> [] \<and> (hd r1 = CHR ''+'' \<or> hd r1 = CHR ''-'') then tl r1 else r1)
             in if r2 \<noteq> [] \<and> (\<forall>d \<in> set r2. isDigit d)
                then Some ((if neg then - 1 else 1) * int (digitsVal 10 r2))
                else None)
          else None)"

definition unsignedDecimal :: "string \<Rightarrow> jsnum" where
  "unsignedDecimal s =
     (if s = ''Infinity'' then PInf
      else
        (let ip = takeWhile isDigit s;
             r1 = dropWhile isDigit s;
             dot = (r1 \<noteq> [] \<and> hd r1 = CHR ''.'');
             fp = (if dot then takeWhile isDigit (tl r1) else []);
             r2 = (if dot then dropWhile isDigit (tl r1) else r1)
         in if ip = [] \<and> fp = [] then NaN
            else (case exponentPart r2 of
                    None \<Rightarrow> NaN
                  | Some e \<Rightarrow> Fin (of_nat (digitsVal 10 (ip @ fp)) * pow10 (e - int (length fp))))))"

definition num_neg :: "jsnum \<Rightarrow> jsnum" where
  "num_neg n = (case n of NaN \<Rightarrow> NaN | PInf \<Rightarrow> NInf | NInf \<Rightarrow> PInf | Fin x \<Rightarrow> Fin (- x))"

text \<open>\<open>StringToNumber\<close>: the empty text is 0, a text that is no numeric literal is \<open>NaN\<close>;
  the value of a literal is taken exactly.\<close>

definition stringToNumber :: "string \<Rightarrow> jsnum" where
  "stringToNumber s0 =
     (let s = trim s0 in
      if s = [] then Fin 0
      else if take 2 s = ''0x'' \<or> take 2 s = ''0X'' then radixLiteral 16 (drop 2 s)
      else if take 2 s = ''0o'' \<or> take 2 s = ''0O'' then radixLiteral 8 (drop 2 s)
      else if take 2 s = ''0b'' \<or> take 2 s = ''0B'' then radixLiteral 2 (drop 2 s)
      else if hd s = CHR ''-'' then num_neg (unsignedDecimal (tl s))
      else if hd s = CHR ''+'' then unsignedDecimal (tl s)
      else unsignedDecimal s)"

text \<open>
  \<open>Number(v)\<close>. An array is first turned into the text of its elements joined by commas,
  so the empty array gives 0, a one-element array what its element's text gives, and a
  longer one \<open>NaN\<close>; a plain object gives \<open>NaN\<close>.
\<close>

fun toNumber :: "jsval \<Rightarrow> jsnum" where
  "toNumber JUndefined = NaN"
| "toNumber JNull = Fin 0"
| "toNumber (JBool b) = (if b then Fin 1 else Fin 0)"
| "toNumber (JNum n) = n"
| "toNumber (JStr s) = stringToNumber s"
| "toNumber (JArr []) = Fin 0"
| "toNumber (JArr [JUndefined]) = Fin 0"
| "toNumber (JArr [JNull]) = Fin 0"
| "toNumber (JArr [JBool b]) = NaN"
| "toNumber (JArr [JObj kvs]) = NaN"
| "toNumber (JArr [v]) = toNumber v"
| "toNumber (JArr (v # w # vs)) = NaN"
| "toNumber (JObj kvs) = NaN"

section \<open>The webview: scores\<close>

text \<open>\<open>clampScore\<close> of \<open>App.tsx\<close>: the value after the coercion of a non-number, then
  the three conditional assignments and the rounding.\<close>

definition clampScore :: "jsval \<Rightarrow> jsnum" where
  "clampScore v =
     (let coerced =
            (case v of
               JNum n \<Rightarrow> Some n
             | _ \<Rightarrow> (let parsed = toNumber v in if parsed = NaN then None else Some parsed))
      in case coerced of
           None \<Rightarrow> Fin 0
         | Some s0 \<Rightarrow>
             (let s1 = (if num_ge s0 (Fin 0) \<and> num_le s0 (Fin 1) then num_mul s0 (Fin 100) else s0);
                  s2 = (if num_lt s1 (Fin 0) then Fin 0 else s1);
                  s3 = (if num_gt s2 (Fin 100) then Fin 100 else s2)
              in math_round s3))"

text \<open>\<open>getScoreLabel\<close> of \<open>App.tsx\<close>; the neutral label is an em dash.\<close>

record score_label =
  label :: string
  color :: string

definition EM_DASH :: string where
  "EM_DASH = [CHR 0xE2, CHR 0x80, CHR 0x94]"

definition getScoreLabel :: "jsnum \<Rightarrow> score_label" where
  "getScoreLabel score =
     (if num_ge score (Fin 90) then \<lparr>label = ''Excellent'', color = ''#a3e635''\<rparr>
      else if num_ge score (Fin 70) then \<lparr>label = ''Good'', color = ''#4ade80''\<rparr>
      else if num_ge score (Fin 40) then \<lparr>label = ''Okay'', color = ''#fbbf24''\<rparr>
      else if num_gt score (Fin 0) then \<lparr>label = ''Needs Work'', color = ''#f97373''\<rparr>
      else \<lparr>label = EM_DASH, color = ''#6b7280''\<rparr>)"

subsection \<open>The normalization rule as the specification words it\<close>



section \<open>Texts of the source\<close>

text \<open>Each text is the UTF-8 encoding of the literal in the source; the comment gives
  its meaning.\<close>

text \<open>MSG_NO_OPEN_FILE: "There is no open file."\<close>

definition MSG_NO_OPEN_FILE :: string where
  "MSG_NO_OPEN_FILE = [
     CHR 0xEC, CHR 0x97, CHR 0xB4, CHR 0xEB, CHR 0xA0, CHR 0xA4, CHR 0x20, CHR 0xEC,
     CHR 0x9E, CHR 0x88, CHR 0xEB, CHR 0x8A, CHR 0x94, CHR 0x20, CHR 0xED, CHR 0x8C,
     CHR 0x8C, CHR 0xEC, CHR 0x9D, CHR 0xBC, CHR 0xEC, CHR 0x9D, CHR 0xB4, CHR 0x20,
     CHR 0xEC, CHR 0x97, CHR 0x86, CHR 0xEC, CHR 0x8A, CHR 0xB5, CHR 0xEB, CHR 0x8B,
     CHR 0x88, CHR 0xEB, CHR 0x8B, CHR 0xA4, CHR 0x2E]"

text \<open>MSG_EMPTY_CODE: "The code to analyze is empty."\<close>

definition MSG_EMPTY_CODE :: string where
  "MSG_EMPTY_CODE = [
     CHR 0xEB, CHR 0xB6, CHR 0x84, CHR 0xEC, CHR 0x84, CHR 0x9D, CHR 0xED, CHR 0x95,
     CHR 0xA0, CHR 0x20, CHR 0xEC, CHR 0xBD, CHR 0x94, CHR 0xEB, CHR 0x93, CHR 0x9C,
     CHR 0xEA, CHR 0xB0, CHR 0x80, CHR 0x20, CHR 0xEB, CHR 0xB9, CHR 0x84, CHR 0xEC,
     CHR 0x96, CHR 0xB4, CHR 0x20, CHR 0xEC, CHR 0x9E, CHR 0x88, CHR 0xEC, CHR 0x8A,
     CHR 0xB5, CHR 0xEB, CHR 0x8B, CHR 0x88, CHR 0xEB, CHR 0x8B, CHR 0xA4, CHR 0x2E]"

text \<open>MSG_EMPTY_FILE: "The current file is empty."\<close>

definition MSG_EMPTY_FILE :: string where
  "MSG_EMPTY_FILE = [
     CHR 0xED, CHR 0x98, CHR 0x84, CHR 0xEC, CHR 0x9E, CHR 0xAC, CHR 0x20, CHR 0xED,
     CHR 0x8C, CHR 0x8C, CHR 0xEC, CHR 0x9D, CHR 0xBC, CHR 0xEC, CHR 0x9D, CHR 0xB4,
     CHR 0x20, CHR 0xEB, CHR 0xB9, CHR 0x84, CHR 0xEC, CHR 0x96, CHR 0xB4, CHR 0x20,
     CHR 0xEC, CHR 0x9E, CHR 0x88, CHR 0xEC, CHR 0x8A, CHR 0xB5, CHR 0xEB, CHR 0x8B,
     CHR 0x88, CHR 0xEB, CHR 0x8B, CHR 0xA4, CHR 0x2E]"

text \<open>MSG_REQUESTING: "Requesting a code analysis from the DKMV LLM..."\<close>

definition MSG_REQUESTING :: string where
  "MSG_REQUESTING = [
     CHR 0x44, CHR 0x4B, CHR 0x4D, CHR 0x56, CHR 0x20, CHR 0x4C, CHR 0x4C, CHR 0x4D,
     CHR 0xEC, CHR 0x97, CHR 0x90, CHR 0x20, CHR 0xEC, CHR 0xBD, CHR 0x94, CHR 0xEB,
     CHR 0x93, CHR 0x9C, CHR 0x20, CHR 0xEB, CHR 0xB6, CHR 0x84, CHR 0xEC, CHR 0x84,
     CHR 0x9D, CHR 0xEC, CHR 0x9D, CHR 0x84, CHR 0x20, CHR 0xEC, CHR 0x9A, CHR 0x94,
     CHR 0xEC, CHR 0xB2, CHR 0xAD, CHR 0x20, CHR 0xEC, CHR 0xA4, CHR 0x91, CHR 0xEC,
     CHR 0x9E, CHR 0x85, CHR 0xEB, CHR 0x8B, CHR 0x88, CHR 0xEB, CHR 0x8B, CHR 0xA4,
     CHR 0x2E, CHR 0x2E, CHR 0x2E]"

text \<open>MSG_UNKNOWN_ERROR: "An unknown error occurred during the server request."\<close>

definition MSG_UNKNOWN_ERROR :: string where
  "MSG_UNKNOWN_ERROR = [
     CHR 0xEC, CHR 0x84, CHR 0x9C, CHR 0xEB, CHR 0xB2, CHR 0x84, CHR 0x20, CHR 0xEC,
     CHR 0x9A, CHR 0x94, CHR 0xEC, CHR 0xB2, CHR 0xAD, CHR 0x20, CHR 0xEC, CHR 0xA4,
     CHR 0x91, CHR 0x20, CHR 0xEC, CHR 0x95, CHR 0x8C, CHR 0x20, CHR 0xEC, CHR 0x88,
     CHR 0x98, CHR 0x20, CHR 0xEC, CHR 0x97, CHR 0x86, CHR 0xEB, CHR 0x8A, CHR 0x94,
     CHR 0x20, CHR 0xEC, CHR 0x98, CHR 0xA4, CHR 0xEB, CHR 0xA5, CHR 0x98, CHR 0xEA,
     CHR 0xB0, CHR 0x80, CHR 0x20, CHR 0xEB, CHR 0xB0, CHR 0x9C, CHR 0xEC, CHR 0x83,
     CHR 0x9D, CHR 0xED, CHR 0x96, CHR 0x88, CHR 0xEC, CHR 0x8A, CHR 0xB5, CHR 0xEB,
     CHR 0x8B, CHR 0x88, CHR 0xEB, CHR 0x8B, CHR 0xA4, CHR 0x2E]"

text \<open>MSG_INITIAL: "The analysis result is shown in this area."\<close>

definition MSG_INITIAL :: string where
  "MSG_INITIAL = [
     CHR 0xEB, CHR 0xB6, CHR 0x84, CHR 0xEC, CHR 0x84, CHR 0x9D, CHR 0x20, CHR 0xEA,
     CHR 0xB2, CHR 0xB0, CHR 0xEA, CHR 0xB3, CHR 0xBC, CHR 0xEA, CHR 0xB0, CHR 0x80,
     CHR 0x20, CHR 0xEC, CHR 0x9D, CHR 0xB4, CHR 0x20, CHR 0xEC, CHR 0x98, CHR 0x81,
     CHR 0xEC, CHR 0x97, CHR 0xAD, CHR 0xEC, CHR 0x97, CHR 0x90, CHR 0x20, CHR 0xED,
     CHR 0x91, CHR 0x9C, CHR 0xEC, CHR 0x8B, CHR 0x9C, CHR 0xEB, CHR 0x90, CHR 0xA9,
     CHR 0xEB, CHR 0x8B, CHR 0x88, CHR 0xEB, CHR 0x8B, CHR 0xA4, CHR 0x2E]"

text \<open>MSG_CODE_RECEIVED: "Code received. Select a model, then start the review with the Analyze button or Ctrl+Enter."\<close>

definition MSG_CODE_RECEIVED :: string where
  "MSG_CODE_RECEIVED = [
     CHR 0xEC, CHR 0xBD, CHR 0x94, CHR 0xEB, CHR 0x93, CHR 0x9C, CHR 0xEB, CHR 0xA5,
     CHR 0xBC, CHR 0x20, CHR 0xEB, CHR 0xB0, CHR 0x9B, CHR 0xEC, CHR 0x95, CHR 0x98,
     CHR 0xEC, CHR 0x8A, CHR 0xB5, CHR 0xEB, CHR 0x8B, CHR 0x88, CHR 0xEB, CHR 0x8B,
     CHR 0xA4, CHR 0x2E, CHR 0x20, CHR 0xEB, CHR 0xAA, CHR 0xA8, CHR 0xEB, CHR 0x8D,
     CHR 0xB8, CHR 0xEC, CHR 0x9D, CHR 0x84, CHR 0x20, CHR 0xEC, CHR 0x84, CHR 0xA0,
     CHR 0xED, CHR 0x83, CHR 0x9D, CHR 0xED, CHR 0x95, CHR 0x9C, CHR 0x20, CHR 0xEB,
     CHR 0x92, CHR 0xA4, CHR 0x20, CHR 0x5B, CHR 0xEB, CHR 0xB6, CHR 0x84, CHR 0xEC,
     CHR 0x84, CHR 0x9D, CHR 0x5D, CHR 0x20, CHR 0xEB, CHR 0xB2, CHR 0x84, CHR 0xED,
     CHR 0x8A, CHR 0xBC, CHR 0x20, CHR 0xEB, CHR 0x98, CHR 0x90, CHR 0xEB, CHR 0x8A,
     CHR 0x94, CHR 0x20, CHR 0x43, CHR 0x74, CHR 0x72, CHR 0x6C, CHR 0x2B, CHR 0x45,
     CHR 0x6E, CHR 0x74, CHR 0x65, CHR 0x72, CHR 0xEB, CHR 0xA1, CHR 0x9C, CHR 0x20,
     CHR 0xEB, CHR 0xA6, CHR 0xAC, CHR 0xEB, CHR 0xB7, CHR 0xB0, CHR 0xEB, CHR 0xA5,
     CHR 0xBC, CHR 0x20, CHR 0xEC, CHR 0x8B, CHR 0x9C, CHR 0xEC, CHR 0x9E, CHR 0x91,
     CHR 0xED, CHR 0x95, CHR 0x98, CHR 0xEC, CHR 0x84, CHR 0xB8, CHR 0xEC, CHR 0x9A,
     CHR 0x94, CHR 0x2E]"

text \<open>MSG_READING: "The model is reading the code..."\<close>

definition MSG_READING :: string where
  "MSG_READING = [
     CHR 0xEB, CHR 0xAA, CHR 0xA8, CHR 0xEB, CHR 0x8D, CHR 0xB8, CHR 0xEC, CHR 0x9D,
     CHR 0xB4, CHR 0x20, CHR 0xEC, CHR 0xBD, CHR 0x94, CHR 0xEB, CHR 0x93, CHR 0x9C,
     CHR 0xEB, CHR 0xA5, CHR 0xBC, CHR 0x20, CHR 0xEC, CHR 0x9D, CHR 0xBD, CHR 0xEA,
     CHR 0xB3, CHR 0xA0, CHR 0x20, CHR 0xEC, CHR 0x9E, CHR 0x88, CHR 0xEC, CHR 0x8A,
     CHR 0xB5, CHR 0xEB, CHR 0x8B, CHR 0x88, CHR 0xEB, CHR 0x8B, CHR 0xA4, CHR 0x2E,
     CHR 0x2E, CHR 0x2E]"

text \<open>MSG_ERROR_PREFIX: "Error: "\<close>

definition MSG_ERROR_PREFIX :: string where
  "MSG_ERROR_PREFIX = [
     CHR 0xEC, CHR 0x98, CHR 0xA4, CHR 0xEB, CHR 0xA5, CHR 0x98, CHR 0x20, CHR 0xEB,
     CHR 0xB0, CHR 0x9C, CHR 0xEC, CHR 0x83, CHR 0x9D, CHR 0x3A, CHR 0x20]"

text \<open>MSG_DONE: "The analysis is complete."\<close>

definition MSG_DONE :: string where
  "MSG_DONE = [
     CHR 0xEB, CHR 0xB6, CHR 0x84, CHR 0xEC, CHR 0x84, CHR 0x9D, CHR 0xEC, CHR 0x9D,
     CHR 0xB4, CHR 0x20, CHR 0xEC, CHR 0x99, CHR 0x84, CHR 0xEB, CHR 0xA3, CHR 0x8C,
     CHR 0xEB, CHR 0x90, CHR 0x98, CHR 0xEC, CHR 0x97, CHR 0x88, CHR 0xEC, CHR 0x8A,
     CHR 0xB5, CHR 0xEB, CHR 0x8B, CHR 0x88, CHR 0xEB, CHR 0x8B, CHR 0xA4, CHR 0x2E]"

text \<open>MSG_FULL_DOCUMENT_LATER: "Loading the whole current file will be implemented later."\<close>

definition MSG_FULL_DOCUMENT_LATER :: string where
  "MSG_FULL_DOCUMENT_LATER = [
     CHR 0xED, CHR 0x98, CHR 0x84, CHR 0xEC, CHR 0x9E, CHR 0xAC, CHR 0x20, CHR 0xED,
     CHR 0x8C, CHR 0x8C, CHR 0xEC, CHR 0x9D, CHR 0xBC, CHR 0x20, CHR 0xEC, CHR 0xA0,
     CHR 0x84, CHR 0xEC, CHR 0xB2, CHR 0xB4, CHR 0x20, CHR 0xEA, CHR 0xB0, CHR 0x80,
     CHR 0xEC, CHR 0xA0, CHR 0xB8, CHR 0xEC, CHR 0x98, CHR 0xA4, CHR 0xEA, CHR 0xB8,
     CHR 0xB0, CHR 0xEB, CHR 0x8A, CHR 0x94, CHR 0x20, CHR 0xEC, CHR 0xB6, CHR 0x94,
     CHR 0xED, CHR 0x9B, CHR 0x84, CHR 0x20, CHR 0xEA, CHR 0xB5, CHR 0xAC, CHR 0xED,
     CHR 0x98, CHR 0x84, CHR 0x20, CHR 0xEC, CHR 0x98, CHR 0x88, CHR 0xEC, CHR 0xA0,
     CHR 0x95, CHR 0xEC, CHR 0x9E, CHR 0x85, CHR 0xEB, CHR 0x8B, CHR 0x88, CHR 0xEB,
     CHR 0x8B, CHR 0xA4, CHR 0x2E]"

text \<open>MSG_NO_CODE: "There is no code to analyze. Select code in VS Code and run the command, or paste code on the left."\<close>

definition MSG_NO_CODE :: string where
  "MSG_NO_CODE = [
     CHR 0xEB, CHR 0xB6, CHR 0x84, CHR 0xEC, CHR 0x84, CHR 0x9D, CHR 0xED, CHR 0x95,
     CHR 0xA0, CHR 0x20, CHR 0xEC, CHR 0xBD, CHR 0x94, CHR 0xEB, CHR 0x93, CHR 0x9C,
     CHR 0xEA, CHR 0xB0, CHR 0x80, CHR 0x20, CHR 0xEC, CHR 0x97, CHR 0x86, CHR 0xEC,
     CHR 0x8A, CHR 0xB5, CHR 0xEB, CHR 0x8B, CHR 0x88, CHR 0xEB, CHR 0x8B, CHR 0xA4,
     CHR 0x2E, CHR 0x20, CHR 0x56, CHR 0x53, CHR 0x20, CHR 0x43, CHR 0x6F, CHR 0x64,
     CHR 0x65, CHR 0xEC, CHR 0x97, CHR 0x90, CHR 0xEC, CHR 0x84, CHR 0x9C, CHR 0x20,
     CHR 0xEC, CHR 0xBD, CHR 0x94, CHR 0xEB, CHR 0x93, CHR 0x9C, CHR 0xEB, CHR 0xA5,
     CHR 0xBC, CHR 0x20, CHR 0xEC, CHR 0x84, CHR 0xA0, CHR 0xED, CHR 0x83, CHR 0x9D,
     CHR 0x20, CHR 0xED, CHR 0x9B, CHR 0x84, CHR 0x20, CHR 0xEC, CHR 0x8B, CHR 0xA4,
     CHR 0xED, CHR 0x96, CHR 0x89, CHR 0xED, CHR 0x95, CHR 0x98, CHR 0xEA, CHR 0xB1,
     CHR 0xB0, CHR 0xEB, CHR 0x82, CHR 0x98, CHR 0x20, CHR 0xEC, CHR 0x99, CHR 0xBC,
     CHR 0xEC, CHR 0xAA, CHR 0xBD, CHR 0xEC, CHR 0x97, CHR 0x90, CHR 0x20, CHR 0xEC,
     CHR 0xBD, CHR 0x94, CHR 0xEB, CHR 0x93, CHR 0x9C, CHR 0xEB, CHR 0xA5, CHR 0xBC,
     CHR 0x20, CHR 0xEB, CHR 0xB6, CHR 0x99, CHR 0xEC, CHR 0x97, CHR 0xAC, CHR 0xEB,
     CHR 0x84, CHR 0xA3, CHR 0xEC, CHR 0x96, CHR 0xB4, CHR 0x20, CHR 0xEC, CHR 0xA3,
     CHR 0xBC, CHR 0xEC, CHR 0x84, CHR 0xB8, CHR 0xEC, CHR 0x9A, CHR 0x94, CHR 0x2E]"

text \<open>MSG_SELECT_MODEL: "Please select the model to use first."\<close>

definition MSG_SELECT_MODEL :: string where
  "MSG_SELECT_MODEL = [
     CHR 0xEC, CHR 0x82, CHR 0xAC, CHR 0xEC, CHR 0x9A, CHR 0xA9, CHR 0xED, CHR 0x95,
     CHR 0xA0, CHR 0x20, CHR 0xEB, CHR 0xAA, CHR 0xA8, CHR 0xEB, CHR 0x8D, CHR 0xB8,
     CHR 0xEC, CHR 0x9D, CHR 0x84, CHR 0x20, CHR 0xEB, CHR 0xA8, CHR 0xBC, CHR 0xEC,
     CHR 0xA0, CHR 0x80, CHR 0x20, CHR 0xEC, CHR 0x84, CHR 0xA0, CHR 0xED, CHR 0x83,
     CHR 0x9D, CHR 0xED, CHR 0x95, CHR 0xB4, CHR 0x20, CHR 0xEC, CHR 0xA3, CHR 0xBC,
     CHR 0xEC, CHR 0x84, CHR 0xB8, CHR 0xEC, CHR 0x9A, CHR 0x94, CHR 0x2E]"

text \<open>MSG_NO_VSCODE_API: "The VS Code API is not available."\<close>

definition MSG_NO_VSCODE_API :: string where
  "MSG_NO_VSCODE_API = [
     CHR 0x56, CHR 0x53, CHR 0x20, CHR 0x43, CHR 0x6F, CHR 0x64, CHR 0x65, CHR 0x20,
     CHR 0x41, CHR 0x50, CHR 0x49, CHR 0xEB, CHR 0xA5, CHR 0xBC, CHR 0x20, CHR 0xEC,
     CHR 0x82, CHR 0xAC, CHR 0xEC, CHR 0x9A, CHR 0xA9, CHR 0xED, CHR 0x95, CHR 0xA0,
     CHR 0x20, CHR 0xEC, CHR 0x88, CHR 0x98, CHR 0x20, CHR 0xEC, CHR 0x97, CHR 0x86,
     CHR 0xEC, CHR 0x8A, CHR 0xB5, CHR 0xEB, CHR 0x8B, CHR 0x88, CHR 0xEB, CHR 0x8B,
     CHR 0xA4, CHR 0x2E]"

text \<open>MSG_PREPARING: "Preparing the review request..."\<close>

definition MSG_PREPARING :: string where
  "MSG_PREPARING = [
     CHR 0xEB, CHR 0xA6, CHR 0xAC, CHR 0xEB, CHR 0xB7, CHR 0xB0, CHR 0x20, CHR 0xEC,
     CHR 0x9A, CHR 0x94, CHR 0xEC, CHR 0xB2, CHR 0xAD, CHR 0xEC, CHR 0x9D, CHR 0x84,
     CHR 0x20, CHR 0xEC, CHR 0xA4, CHR 0x80, CHR 0xEB, CHR 0xB9, CHR 0x84, CHR 0x20,
     CHR 0xEC, CHR 0xA4, CHR 0x91, CHR 0xEC, CHR 0x9E, CHR 0x85, CHR 0xEB, CHR 0x8B,
     CHR 0x88, CHR 0xEB, CHR 0x8B, CHR 0xA4, CHR 0x2E, CHR 0x2E, CHR 0x2E]"

section \<open>The webview: state and messages\<close>

datatype TabId = TabCode | TabResult

datatype Mode = Selection | Document

record ScoreCategories =
  bug :: jsnum
  maintainability :: jsnum
  style :: jsnum
  security :: jsnum

definition EMPTY_CATEGORIES :: ScoreCategories where
  "EMPTY_CATEGORIES = \<lparr>bug = Fin 0, maintainability = Fin 0, style = Fin 0, security = Fin 0\<rparr>"

text \<open>The payload of \<open>NEW_CODE\<close>.\<close>

record CodePayload =
  p_code :: string
  p_fileName :: string
  p_filePath :: string
  p_languageId :: string
  p_mode :: Mode

text \<open>The payload of \<open>REQUEST_ANALYZE\<close>; the extension reads every field as optional.\<close>

record AnalyzeRequest =
  r_code :: "string option"
  r_filePath :: "string option"
  r_languageId :: "string option"
  r_model :: "string option"

text \<open>Messages from the extension to the webview; \<open>OtherIncoming\<close> stands for a message
  of any other type, and for an event without data.\<close>

datatype IncomingMessage =
    NEW_CODE CodePayload
  | ANALYZE_PROGRESS string
  | ANALYZE_RESULT jsval
  | ANALYZE_ERROR string
  | OtherIncoming

text \<open>Messages from the webview to the extension.\<close>

datatype OutgoingMessage =
    REQUEST_ANALYZE "AnalyzeRequest option"
  | REQUEST_FULL_DOCUMENT
  | OtherOutgoing

text \<open>
  The interval started by the score effect: its targets and its step counter, the
  variables its callback closes over.
\<close>

record Interval =
  targetOverall :: jsnum
  targetCategories :: ScoreCategories
  currentStep :: nat

text \<open>The state of the component \<open>App\<close>, and the interval of its score effect when one
  is running.\<close>

record AppState =
  code :: string
  filePath :: string
  languageId :: string
  mode :: "Mode option"
  isLoading :: bool
  activeTab :: TabId
  resultMessage :: string
  resultData :: jsval
  codeHighlight :: bool
  resultHighlight :: bool
  hasNewResult :: bool
  isError :: bool
  selectedModel :: string
  modelError :: bool
  displayOverallScore :: jsnum
  displayCategoryScores :: ScoreCategories
  intervalId :: "Interval option"

definition initialState :: AppState where
  "initialState =
     \<lparr>code = [], filePath = [], languageId = ''plaintext'', mode = None,
      isLoading = False, activeTab = TabCode, resultMessage = MSG_INITIAL,
      resultData = JNull, codeHighlight = False, resultHighlight = False,
      hasNewResult = False, isError = False, selectedModel = [], modelError = False,
      displayOverallScore = Fin 0, displayCategoryScores = EMPTY_CATEGORIES,
      intervalId = None\<rparr>"

definition flashCodeHighlight :: "AppState \<Rightarrow> AppState" where
  "flashCodeHighlight s = s\<lparr>codeHighlight := True\<rparr>"

definition flashResultHighlight :: "AppState \<Rightarrow> AppState" where
  "flashResultHighlight s = s\<lparr>resultHighlight := True\<rparr>"

text \<open>The listener for the messages of the extension.\<close>

fun handler :: "AppState \<Rightarrow> IncomingMessage \<Rightarrow> AppState" where
  "handler s (NEW_CODE p) =
     (flashCodeHighlight
        (s\<lparr>code := p_code p, filePath := p_filePath p, languageId := p_languageId p,
           mode := Some (p_mode p), isLoading := False, resultData := JNull,
           resultMessage := MSG_CODE_RECEIVED, displayOverallScore := Fin 0,
           displayCategoryScores := EMPTY_CATEGORIES, activeTab := TabCode\<rparr>))
       \<lparr>hasNewResult := False, isError := False\<rparr>"
| "handler s (ANALYZE_PROGRESS payload) =
     s\<lparr>isLoading := True,
        resultMessage := (if payload \<noteq> [] then payload else MSG_READING),
        activeTab := TabResult, isError := False\<rparr>"
| "handler s (ANALYZE_ERROR payload) =
     s\<lparr>isLoading := False, resultData := JNull,
        resultMessage := MSG_ERROR_PREFIX @ payload, displayOverallScore := Fin 0,
        displayCategoryScores := EMPTY_CATEGORIES, activeTab := TabResult,
        isError := True, hasNewResult := False\<rparr>"
| "handler s (ANALYZE_RESULT data) =
     (flashResultHighlight
        (s\<lparr>isLoading := False, resultData := data, resultMessage := MSG_DONE,
           activeTab := TabResult\<rparr>))
       \<lparr>hasNewResult := True, isError := False\<rparr>"
| "handler s OtherIncoming = s"

definition handleLoadFullDocument :: "AppState \<Rightarrow> AppState" where
  "handleLoadFullDocument s =
     s\<lparr>resultMessage := MSG_FULL_DOCUMENT_LATER, isError := False, hasNewResult := False\<rparr>"

text \<open>\<open>handleAnalyze\<close>: the new state and the messages posted to the extension.
  \<open>vscode\<close> tells whether the VS Code API was acquired.\<close>

definition handleAnalyze :: "bool \<Rightarrow> AppState \<Rightarrow> AppState \<times> OutgoingMessage list" where
  "handleAnalyze vscode s =
     (if trim (code s) = [] then
        (s\<lparr>resultMessage := MSG_NO_CODE, resultData := JNull, displayOverallScore := Fin 0,
           displayCategoryScores := EMPTY_CATEGORIES, isError := False,
           hasNewResult := False\<rparr>, [])
      else if selectedModel s = [] then
        (s\<lparr>resultMessage := MSG_SELECT_MODEL, resultData := JNull,
           displayOverallScore := Fin 0, displayCategoryScores := EMPTY_CATEGORIES,
           isError := True, hasNewResult := False, modelError := True\<rparr>, [])
      else if \<not> vscode then
        (s\<lparr>resultMessage := MSG_NO_VSCODE_API, resultData := JNull,
           displayOverallScore := Fin 0, displayCategoryScores := EMPTY_CATEGORIES,
           isError := True, hasNewResult := False\<rparr>, [])
      else
        (s\<lparr>isLoading := True, resultMessage := MSG_PREPARING, isError := False,
           hasNewResult := False, activeTab := TabResult\<rparr>,
         [REQUEST_ANALYZE (Some
            \<lparr>r_code = Some (code s), r_filePath = Some (filePath s),
             r_languageId = Some (languageId s), r_model = Some (selectedModel s)\<rparr>)]))"

record KeyEvent =
  ctrlKey :: bool
  metaKey :: bool
  key :: string

definition handleCodeKeyDown ::
  "bool \<Rightarrow> AppState \<Rightarrow> KeyEvent \<Rightarrow> AppState \<times> OutgoingMessage list" where
  "handleCodeKeyDown vscode s e =
     (if (ctrlKey e \<or> metaKey e) \<and> key e = ''Enter'' then
        (if \<not> isLoading s then handleAnalyze vscode s else (s, []))
      else (s, []))"

definition handleCodeChange :: "AppState \<Rightarrow> string \<Rightarrow> AppState" where
  "handleCodeChange s v = flashCodeHighlight (s\<lparr>code := v\<rparr>)"

text \<open>The \<open>onChange\<close> of the model selector.\<close>

definition selectModel :: "AppState \<Rightarrow> string \<Rightarrow> AppState" where
  "selectModel s v = s\<lparr>selectedModel := v, modelError := False, isError := False\<rparr>"

text \<open>The \<open>onClick\<close> of a tab button.\<close>

definition clickTab :: "AppState \<Rightarrow> TabId \<Rightarrow> AppState" where
  "clickTab s tab =
     (let isActive = (activeTab s = tab);
          disabled = (isLoading s \<and> \<not> isActive)
      in if disabled then s
         else (let s1 = s\<lparr>activeTab := tab\<rparr>
               in if tab = TabResult then s1\<lparr>hasNewResult := False\<rparr> else s1))"

subsection \<open>The score effect\<close>

definition duration :: real where
  "duration = 500"

definition frameMs :: real where
  "frameMs = 16"

definition steps :: int where
  "steps = max 1 \<lfloor>duration / frameMs + 1 / 2\<rfloor>"

text \<open>
  The effect that runs when \<open>resultData\<close> has changed, after the cleanup of its previous
  run has cleared the interval of that run.
\<close>

definition scoreEffect :: "AppState \<Rightarrow> AppState" where
  "scoreEffect s0 =
     (let s = s0\<lparr>intervalId := None\<rparr> in
      if \<not> truthy (resultData s) then
        s\<lparr>displayOverallScore := Fin 0, displayCategoryScores := EMPTY_CATEGORIES\<rparr>
      else
        (let rawOverall = get_prop (resultData s) ''quality_score'';
             scoresByCategory =
               nullish (get_prop (resultData s) ''scores_by_category'') (JObj []);
             tOverall = clampScore rawOverall;
             tCategories =
               \<lparr>bug = clampScore (get_prop scoresByCategory ''bug''),
                maintainability = clampScore (get_prop scoresByCategory ''maintainability''),
                style = clampScore (get_prop scoresByCategory ''style''),
                security = clampScore (get_prop scoresByCategory ''security'')\<rparr>
         in s\<lparr>displayOverallScore := Fin 0, displayCategoryScores := EMPTY_CATEGORIES,
              intervalId := Some \<lparr>targetOverall = tOverall, targetCategories = tCategories,
                                  currentStep = 0\<rparr>\<rparr>))"

text \<open>The callback of the interval; it clears the interval once \<open>t\<close> has reached 1.\<close>

definition tick :: "AppState \<Rightarrow> AppState" where
  "tick s =
     (case intervalId s of
        None \<Rightarrow> s
      | Some iv \<Rightarrow>
          (let c = currentStep iv + 1;
               t = min 1 (real c / real_of_int steps);
               ease = t * t * (3 - 2 * t);
               tc = targetCategories iv
           in s\<lparr>displayOverallScore := math_round (num_mul (targetOverall iv) (Fin ease)),
                displayCategoryScores :=
                  \<lparr>bug = math_round (num_mul (bug tc) (Fin ease)),
                   maintainability = math_round (num_mul (maintainability tc) (Fin ease)),
                   style = math_round (num_mul (style tc) (Fin ease)),
                   security = math_round (num_mul (security tc) (Fin ease))\<rparr>,
                intervalId := (if 1 \<le> t then None else Some (iv\<lparr>currentStep := c\<rparr>))\<rparr>))"




subsection \<open>The events of the webview\<close>

datatype UiEvent =
    Message IncomingMessage
  | AnalyzeClick
  | CodeKeyDown KeyEvent
  | CodeChange string
  | ModelChange string
  | TabClick TabId
  | LoadFullDocumentClick
  | CopyReviewClick
  | CopyJsonClick
  | CodeHighlightTimeout
  | ResultHighlightTimeout
  | IntervalTick

text \<open>
  The handler of each event. The analyze button is disabled while loading; the copy
  buttons only touch the clipboard.
\<close>

fun dispatch :: "bool \<Rightarrow> AppState \<Rightarrow> UiEvent \<Rightarrow> AppState \<times> OutgoingMessage list" where
  "dispatch vscode s (Message m) = (handler s m, [])"
| "dispatch vscode s AnalyzeClick = (if isLoading s then (s, []) else handleAnalyze vscode s)"
| "dispatch vscode s (CodeKeyDown e) = handleCodeKeyDown vscode s e"
| "dispatch vscode s (CodeChange v) = (handleCodeChange s v, [])"
| "dispatch vscode s (ModelChange v) = (selectModel s v, [])"
| "dispatch vscode s (TabClick tab) = (clickTab s tab, [])"
| "dispatch vscode s LoadFullDocumentClick = (handleLoadFullDocument s, [])"
| "dispatch vscode s CopyReviewClick = (s, [])"
| "dispatch vscode s CopyJsonClick = (s, [])"
| "dispatch vscode s CodeHighlightTimeout = (s\<lparr>codeHighlight := False\<rparr>, [])"
| "dispatch vscode s ResultHighlightTimeout = (s\<lparr>resultHighlight := False\<rparr>, [])"
| "dispatch vscode s IntervalTick = (tick s, [])"

text \<open>
  Whether the event has given \<open>resultData\<close> another reference. The payload of a message
  is a fresh value: an object or an array is never the one held before, a primitive is
  compared by value. Every other handler leaves \<open>resultData\<close> alone or sets it to \<open>null\<close>.
\<close>

definition resultDataChanged :: "AppState \<Rightarrow> UiEvent \<Rightarrow> AppState \<Rightarrow> bool" where
  "resultDataChanged s e s1 =
     (case e of
        Message (ANALYZE_RESULT (JArr vs)) \<Rightarrow> True
      | Message (ANALYZE_RESULT (JObj kvs)) \<Rightarrow> True
      | _ \<Rightarrow> resultData s1 \<noteq> resultData s)"

text \<open>One event: its handler, then the score effect when \<open>resultData\<close> has changed.
  The timers of the component are events of their own: \<open>IntervalTick\<close> is a callback of
  the interval, the two timeouts end the highlights.\<close>

definition appStep :: "bool \<Rightarrow> AppState \<Rightarrow> UiEvent \<Rightarrow> AppState \<times> OutgoingMessage list" where
  "appStep vscode s e =
     (let r = dispatch vscode s e
      in (if resultDataChanged s e (fst r) then scoreEffect (fst r) else fst r, snd r))"

text \<open>A sequence of events, from the first; the messages posted are collected in order.\<close>

fun appRun :: "bool \<Rightarrow> AppState \<Rightarrow> UiEvent list \<Rightarrow> AppState \<times> OutgoingMessage list" where
  "appRun vscode s [] = (s, [])"
| "appRun vscode s (e # es) =
     (let r = appStep vscode s e;
          r' = appRun vscode (fst r) es
      in (fst r', snd r @ snd r'))"

subsection \<open>Observations on the scores\<close>











section \<open>The extension\<close>

definition API_BASE :: string where
  "API_BASE = ''http://18.205.229.159:8001''"

definition REVIEW_API_URL :: string where
  "REVIEW_API_URL = API_BASE @ ''/api/v1/review/''"

text \<open>The active text editor, as far as the extension reads it.\<close>

record Editor =
  selectionIsEmpty :: bool
  selectedText :: string
  documentText :: string
  fsPath :: string
  documentLanguageId :: string
  fileName :: string

text \<open>The JSON body of the request to the review service.\<close>

record ReviewBody =
  code_snippet :: string
  language :: string
  file_path :: string
  model :: "string option"

text \<open>What the extension does to its surroundings, in order; \<open>Fetch\<close> carries the
  address, the method and the body of the request.\<close>

datatype HostEffect =
    ShowInformationMessage string
  | CreateWebviewPanel
  | Reveal
  | PostMessage IncomingMessage
  | Fetch string string ReviewBody


text \<open>A thrown value: an \<open>Error\<close> with its message, or anything else.\<close>

datatype Thrown = ErrorInstance string | OtherValue

text \<open>A response: its status, and what reading its body as text and as JSON gives.\<close>

record Response =
  status :: nat
  bodyText :: "Thrown + string"
  bodyJson :: "Thrown + jsval"

datatype FetchOutcome = Rejects Thrown | Resolves Response

definition ok :: "Response \<Rightarrow> bool" where
  "ok r = (200 \<le> status r \<and> status r \<le> 299)"

text \<open>The decimal text of a status code, as a template literal prints it.\<close>

fun showNat :: "nat \<Rightarrow> string" where
  "showNat n =
     (if n < 10 then [char_of (48 + n)]
      else showNat (n div 10) @ [char_of (48 + n mod 10)])"

declare showNat.simps [simp del]

text \<open>
  The panel, when there is one, with the variables of the command run that created it:
  the message handler of the panel closes over them.
\<close>

record Panel =
  commandFilePath :: string
  commandLanguageId :: string

text \<open>\<open>panel?.webview.postMessage(m)\<close>: nothing is posted when there is no panel.\<close>

definition postMessage :: "bool \<Rightarrow> IncomingMessage \<Rightarrow> HostEffect list" where
  "postMessage panel m = (if panel then [PostMessage m] else [])"

text \<open>The command \<open>dkmv.analyzeSelection\<close>: the panel afterwards and the effects.\<close>

definition analyzeSelection ::
  "Panel option \<Rightarrow> Editor option \<Rightarrow> Panel option \<times> HostEffect list" where
  "analyzeSelection panel editor =
     (case editor of
        None \<Rightarrow> (panel, [ShowInformationMessage MSG_NO_OPEN_FILE])
      | Some ed \<Rightarrow>
          (let hasSelection = (\<not> selectionIsEmpty ed);
               code = (if hasSelection then selectedText ed else documentText ed)
           in if trim code = [] then (panel, [ShowInformationMessage MSG_EMPTY_CODE])
              else
                (let newCode = NEW_CODE
                       \<lparr>p_code = code, p_fileName = fileName ed, p_filePath = fsPath ed,
                        p_languageId = documentLanguageId ed,
                        p_mode = (if hasSelection then Selection else Document)\<rparr>
                 in case panel of
                      None \<Rightarrow>
                        (Some \<lparr>commandFilePath = fsPath ed,
                               commandLanguageId = documentLanguageId ed\<rparr>,
                         [CreateWebviewPanel, PostMessage newCode])
                    | Some p \<Rightarrow> (Some p, [Reveal, PostMessage newCode]))))"

definition messageText :: "Thrown \<Rightarrow> string" where
  "messageText error = (case error of ErrorInstance m \<Rightarrow> m | OtherValue \<Rightarrow> MSG_UNKNOWN_ERROR)"

text \<open>
  The \<open>try\<close> block of the \<open>REQUEST_ANALYZE\<close> branch: its effects, and the value thrown
  when it does not run to its end. \<open>panelNow\<close> tells whether there is a panel when the
  message arrives, \<open>panelLater\<close> whether there is one when the request has settled.
\<close>

definition tryAnalyze ::
  "bool \<Rightarrow> bool \<Rightarrow> (ReviewBody \<Rightarrow> FetchOutcome) \<Rightarrow> ReviewBody
     \<Rightarrow> HostEffect list \<times> Thrown option" where
  "tryAnalyze panelNow panelLater fetch body =
     (let begun = postMessage panelNow (ANALYZE_PROGRESS MSG_REQUESTING)
                    @ [Fetch REVIEW_API_URL ''POST'' body]
      in case fetch body of
           Rejects e \<Rightarrow> (begun, Some e)
         | Resolves response \<Rightarrow>
             if \<not> ok response then
               (case bodyText response of
                  Inl e \<Rightarrow> (begun, Some e)
                | Inr t \<Rightarrow>
                    (begun,
                     Some (ErrorInstance (''HTTP '' @ showNat (status response) @ '': '' @ t))))
             else
               (case bodyJson response of
                  Inl e \<Rightarrow> (begun, Some e)
                | Inr data \<Rightarrow> (begun @ postMessage panelLater (ANALYZE_RESULT data), None)))"

text \<open>The message handler that the command installs on the panel it creates.\<close>

fun onDidReceiveMessage ::
  "Panel \<Rightarrow> bool \<Rightarrow> bool \<Rightarrow> Editor option \<Rightarrow> (ReviewBody \<Rightarrow> FetchOutcome)
     \<Rightarrow> OutgoingMessage \<Rightarrow> HostEffect list" where
  "onDidReceiveMessage cl panelNow panelLater active fetch REQUEST_FULL_DOCUMENT =
     (case active of
        None \<Rightarrow> postMessage panelNow (ANALYZE_ERROR MSG_NO_OPEN_FILE)
      | Some a \<Rightarrow>
          (let fullCode = documentText a
           in if trim fullCode = [] then postMessage panelNow (ANALYZE_ERROR MSG_EMPTY_FILE)
              else postMessage panelNow (NEW_CODE
                     \<lparr>p_code = fullCode, p_fileName = fileName a, p_filePath = fsPath a,
                      p_languageId = documentLanguageId a, p_mode = Document\<rparr>)))"
| "onDidReceiveMessage cl panelNow panelLater active fetch (REQUEST_ANALYZE payload) =
     (let pl = (case payload of
                  None \<Rightarrow> \<lparr>r_code = None, r_filePath = None, r_languageId = None,
                             r_model = None\<rparr>
                | Some p \<Rightarrow> p);
          codeSnippet = (case r_code pl of None \<Rightarrow> [] | Some c \<Rightarrow> c)
      in if trim codeSnippet = [] then postMessage panelNow (ANALYZE_ERROR MSG_EMPTY_CODE)
         else
           (let filePathForReq =
                  (case r_filePath pl of None \<Rightarrow> commandFilePath cl | Some f \<Rightarrow> f);
                languageForReq =
                  (case r_languageId pl of None \<Rightarrow> commandLanguageId cl | Some l \<Rightarrow> l);
                modelForReq = r_model pl;
                body = \<lparr>code_snippet = codeSnippet, language = languageForReq,
                        file_path = filePathForReq,
                        model = (case modelForReq of
                                   None \<Rightarrow> None
                                 | Some m \<Rightarrow> if m \<noteq> [] then Some m else None)\<rparr>;
                r = tryAnalyze panelNow panelLater fetch body
            in case snd r of
                 None \<Rightarrow> fst r
               | Some error \<Rightarrow> fst r @ postMessage panelLater (ANALYZE_ERROR (messageText error))))"
| "onDidReceiveMessage cl panelNow panelLater active fetch OtherOutgoing = []"

section \<open>Properties of the scores\<close>









text \<open>
  C9. The label of a score is "Excellent" exactly when the score is at least 90, "Good"
  exactly when it is at least 70 and below 90, "Okay" exactly when it is at least 40 and
  below 70, "Needs Work" exactly when it is above 0 and below 40, and the em dash in
  every other case; 90 is "Excellent", 89 and 70 are "Good", 69 and 40 are "Okay", 39 is
  "Needs Work" and 0 has the em dash.
\<close>

theorem getScoreLabel_thresholds:
  "(label (getScoreLabel s) = ''Excellent'' \<longleftrightarrow> num_ge s (Fin 90))
   \<and> (label (getScoreLabel s) = ''Good'' \<longleftrightarrow> (num_ge s (Fin 70) \<and> num_lt s (Fin 90)))
   \<and> (label (getScoreLabel s) = ''Okay'' \<longleftrightarrow> (num_ge s (Fin 40) \<and> num_lt s (Fin 70)))
   \<and> (label (getScoreLabel s) = ''Needs Work'' \<longleftrightarrow> (num_gt s (Fin 0) \<and> num_lt s (Fin 40)))
   \<and> (label (getScoreLabel s) = EM_DASH \<longleftrightarrow>
        \<not> (num_ge s (Fin 90) \<or> (num_ge s (Fin 70) \<and> num_lt s (Fin 90))
           \<or> (num_ge s (Fin 40) \<and> num_lt s (Fin 70))
           \<or> (num_gt s (Fin 0) \<and> num_lt s (Fin 40))))
   \<and> label (getScoreLabel (Fin 90)) = ''Excellent''
   \<and> label (getScoreLabel (Fin 89)) = ''Good''
   \<and> label (getScoreLabel (Fin 70)) = ''Good''
   \<and> label (getScoreLabel (Fin 69)) = ''Okay''
   \<and> label (getScoreLabel (Fin 40)) = ''Okay''
   \<and> label (getScoreLabel (Fin 39)) = ''Needs Work''
   \<and> label (getScoreLabel (Fin 0)) = EM_DASH"
  by (cases s) (simp_all add: getScoreLabel_def num_ge_def num_gt_def EM_DASH_def)

section \<open>Properties of the webview's handlers\<close>

lemma scoreEffect_display:
  "displayOverallScore (scoreEffect s) = Fin 0
   \<and> displayCategoryScores (scoreEffect s) = EMPTY_CATEGORIES"
  by (simp add: scoreEffect_def Let_def)

lemma scoreEffect_frame:
  "code (scoreEffect s) = code s \<and> activeTab (scoreEffect s) = activeTab s
   \<and> resultData (scoreEffect s) = resultData s \<and> isError (scoreEffect s) = isError s
   \<and> modelError (scoreEffect s) = modelError s
   \<and> resultMessage (scoreEffect s) = resultMessage s"
  by (simp add: scoreEffect_def Let_def)

text \<open>
  C4. Whatever the state, a \<open>NEW_CODE\<close> message sets the displayed overall score and the
  four category scores to 0, clears the result data and the error flag, makes the code
  view the active tab and replaces the code buffer by the code of the payload; nothing
  is posted to the extension.
\<close>

theorem NEW_CODE_resets:
  "displayOverallScore (fst (appStep vscode s (Message (NEW_CODE p)))) = Fin 0
   \<and> displayCategoryScores (fst (appStep vscode s (Message (NEW_CODE p)))) = EMPTY_CATEGORIES
   \<and> resultData (fst (appStep vscode s (Message (NEW_CODE p)))) = JNull
   \<and> isError (fst (appStep vscode s (Message (NEW_CODE p)))) = False
   \<and> activeTab (fst (appStep vscode s (Message (NEW_CODE p)))) = TabCode
   \<and> code (fst (appStep vscode s (Message (NEW_CODE p)))) = p_code p
   \<and> snd (appStep vscode s (Message (NEW_CODE p))) = []"
  by (simp add: appStep_def Let_def scoreEffect_display scoreEffect_frame
      flashCodeHighlight_def)

lemma appStep_ANALYZE_ERROR:
  "resultData (fst (appStep vscode s (Message (ANALYZE_ERROR m)))) = JNull
   \<and> isError (fst (appStep vscode s (Message (ANALYZE_ERROR m)))) = True"
  by (simp add: appStep_def Let_def scoreEffect_frame)

lemma appStep_ANALYZE_RESULT:
  "resultData (fst (appStep vscode s (Message (ANALYZE_RESULT d)))) = d
   \<and> isError (fst (appStep vscode s (Message (ANALYZE_RESULT d)))) = False"
  by (simp add: appStep_def Let_def scoreEffect_frame flashResultHighlight_def)

lemma appRun_two:
  "fst (appRun vscode s [e1, e2]) = fst (appStep vscode (fst (appStep vscode s e1)) e2)"
  by (simp add: Let_def)

text \<open>
  C5, as the code has it. Whatever the state, \<open>ANALYZE_ERROR\<close> clears the result data
  and sets the error flag, and \<open>ANALYZE_RESULT\<close> stores its payload and clears the error
  flag, in either order of the two messages. So after an \<open>ANALYZE_ERROR\<close> exactly one of
  "result data present" and "error flag set" holds, and after an \<open>ANALYZE_RESULT\<close>
  exactly one holds whenever the payload is truthy, which is what the webview tests
  before it shows a result.
\<close>

theorem result_error_exclusive:
  "resultData (fst (appStep vscode s (Message (ANALYZE_ERROR m)))) = JNull
   \<and> isError (fst (appStep vscode s (Message (ANALYZE_ERROR m)))) = True
   \<and> resultData (fst (appStep vscode s (Message (ANALYZE_RESULT d)))) = d
   \<and> isError (fst (appStep vscode s (Message (ANALYZE_RESULT d)))) = False
   \<and> resultData (fst (appRun vscode s [Message (ANALYZE_RESULT d), Message (ANALYZE_ERROR m)]))
       = JNull
   \<and> isError (fst (appRun vscode s [Message (ANALYZE_RESULT d), Message (ANALYZE_ERROR m)]))
       = True
   \<and> resultData (fst (appRun vscode s [Message (ANALYZE_ERROR m), Message (ANALYZE_RESULT d)]))
       = d
   \<and> isError (fst (appRun vscode s [Message (ANALYZE_ERROR m), Message (ANALYZE_RESULT d)]))
       = False
   \<and> truthy (resultData (fst (appStep vscode s (Message (ANALYZE_ERROR m)))))
       \<noteq> isError (fst (appStep vscode s (Message (ANALYZE_ERROR m))))
   \<and> (truthy d \<longrightarrow>
        truthy (resultData (fst (appStep vscode s (Message (ANALYZE_RESULT d)))))
          \<noteq> isError (fst (appStep vscode s (Message (ANALYZE_RESULT d)))))"
  by (simp only: appRun_two appStep_ANALYZE_ERROR appStep_ANALYZE_RESULT) simp

theorem result_error_exclusive_witness:
  "truthy (JObj [(''quality_score'', JNum (Fin 80))])
   \<and> truthy (resultData (fst (appStep True initialState
         (Message (ANALYZE_RESULT (JObj [(''quality_score'', JNum (Fin 80))]))))))
       \<noteq> isError (fst (appStep True initialState
         (Message (ANALYZE_RESULT (JObj [(''quality_score'', JNum (Fin 80))])))))"
  using result_error_exclusive
    [of True initialState "[]" "JObj [(''quality_score'', JNum (Fin 80))]"]
  by simp

text \<open>
  The claim as written fails when the service answers with the JSON value \<open>null\<close>: after
  an error, the \<open>ANALYZE_RESULT\<close> that carries it leaves no result data and no error flag.
\<close>

theorem result_error_exclusive_counterexample:
  "resultData (fst (appRun True initialState
       [Message (ANALYZE_ERROR ''HTTP 500: internal error''), Message (ANALYZE_RESULT JNull)]))
     = JNull
   \<and> isError (fst (appRun True initialState
       [Message (ANALYZE_ERROR ''HTTP 500: internal error''), Message (ANALYZE_RESULT JNull)]))
     = False"
  by (simp only: appRun_two appStep_ANALYZE_RESULT)





lemma appStep_snd: "snd (appStep vscode s e) = snd (dispatch vscode s e)"
  by (simp add: appStep_def Let_def)





lemma dispatch_posts:
  "REQUEST_FULL_DOCUMENT \<notin> set (snd (dispatch vscode s e))"
  by (cases e) (simp_all add: handleAnalyze_def handleCodeKeyDown_def)

lemma appRun_posts:
  "REQUEST_FULL_DOCUMENT \<notin> set (snd (appRun vscode s es))"
proof (induction es arbitrary: s)
  case Nil
  show ?case by simp
next
  case (Cons e es)
  then show ?case
    by (simp add: Let_def appStep_snd dispatch_posts)
qed

text \<open>
  C10. The click on the "load full document" button posts nothing: its handler sets the
  status message to the notice that the feature comes later and lowers the error and
  new-result flags, and nothing else changes, so the code buffer, the active tab, the
  result data and the displayed scores stay as they were. No sequence of events of the
  webview, from any state, ever posts \<open>REQUEST_FULL_DOCUMENT\<close>.
\<close>

theorem load_full_document_posts_nothing:
  "appStep vscode s LoadFullDocumentClick =
     (s\<lparr>resultMessage := MSG_FULL_DOCUMENT_LATER, isError := False, hasNewResult := False\<rparr>, [])
   \<and> code (fst (appStep vscode s LoadFullDocumentClick)) = code s
   \<and> activeTab (fst (appStep vscode s LoadFullDocumentClick)) = activeTab s
   \<and> resultData (fst (appStep vscode s LoadFullDocumentClick)) = resultData s
   \<and> displayOverallScore (fst (appStep vscode s LoadFullDocumentClick)) = displayOverallScore s
   \<and> displayCategoryScores (fst (appStep vscode s LoadFullDocumentClick))
       = displayCategoryScores s
   \<and> REQUEST_FULL_DOCUMENT \<notin> set (snd (appRun vscode s es))"
  using appRun_posts [of vscode s es]
  by (simp add: appStep_def Let_def handleLoadFullDocument_def resultDataChanged_def)

section \<open>Properties of the score animation\<close>













































section \<open>Properties of the extension\<close>








text \<open>
  C6, as the code has it. The condition "no active editor" is met on two paths. In the
  command it gives a notification and nothing else: the panel is left as it was and no
  message is posted. In the \<open>REQUEST_FULL_DOCUMENT\<close> branch of the message handler it gives
  no notification: \<open>ANALYZE_ERROR\<close> is posted to the panel when there is one.
\<close>

theorem no_active_editor:
  "analyzeSelection panel None = (panel, [ShowInformationMessage MSG_NO_OPEN_FILE])
   \<and> onDidReceiveMessage cl panelNow panelLater None fetch REQUEST_FULL_DOCUMENT
       = (if panelNow then [PostMessage (ANALYZE_ERROR MSG_NO_OPEN_FILE)] else [])"
  by (simp add: analyzeSelection_def postMessage_def)

text \<open>
  The claim as written fails on the second path: with a panel and no active editor,
  \<open>REQUEST_FULL_DOCUMENT\<close> is answered by an \<open>ANALYZE_ERROR\<close> message and by no
  notification.
\<close>

theorem no_active_editor_counterexample:
  "onDidReceiveMessage \<lparr>commandFilePath = ''a.py'', commandLanguageId = ''python''\<rparr>
     True True None (\<lambda>b. Rejects OtherValue) REQUEST_FULL_DOCUMENT
   = [PostMessage (ANALYZE_ERROR MSG_NO_OPEN_FILE)]"
  by (simp add: postMessage_def)

end
